theory Spec2Isabelle
  imports Main
begin

section \<open>The SIL verifier of lib/SIL/Verifier.cpp\<close>

text \<open>
  The verifier walks a function, block by block and instruction by instruction, and
  checks each instruction with a sequence of \<^verbatim>\<open>assert\<close>s. The embedding is of the
  build in which assertions are enabled (\<^verbatim>\<open>NDEBUG\<close> undefined); the \<^verbatim>\<open>DEBUG(...)\<close>
  trace output has no effect on the outcome and is left out.
\<close>

subsection \<open>Types\<close>

text \<open>
  Modelled from the spec: the AST type hierarchy (swift/AST/Types.h) is not part of the
  sources. The verifier asks for the shapes function type, polymorphic function type,
  any-function type (either of the two), tuple type, builtin integer type, metatype type
  and archetype type, and names the raw pointer type of the AST context; every other
  type is a \<open>NominalType\<close>.
\<close>

datatype Type =
    FunctionType (getInput: Type) (getResult: Type)
  | PolymorphicFunctionType Type Type
  | TupleType (getFields: "Type list")
  | BuiltinIntegerType nat
  | BuiltinRawPointerType
  | MetaTypeType (getInstanceType: Type)
  | ArchetypeType string
  | NominalType string

fun isFunctionType :: "Type \<Rightarrow> bool" where
  "isFunctionType (FunctionType _ _) = True"
| "isFunctionType _ = False"

fun isPolymorphicFunctionType :: "Type \<Rightarrow> bool" where
  "isPolymorphicFunctionType (PolymorphicFunctionType _ _) = True"
| "isPolymorphicFunctionType _ = False"

definition isAnyFunctionType :: "Type \<Rightarrow> bool" where
  "isAnyFunctionType t = (isFunctionType t \<or> isPolymorphicFunctionType t)"

fun isTupleType :: "Type \<Rightarrow> bool" where
  "isTupleType (TupleType _) = True"
| "isTupleType _ = False"

fun isBuiltinIntegerType :: "Type \<Rightarrow> bool" where
  "isBuiltinIntegerType (BuiltinIntegerType _) = True"
| "isBuiltinIntegerType _ = False"

fun isMetaTypeType :: "Type \<Rightarrow> bool" where
  "isMetaTypeType (MetaTypeType _) = True"
| "isMetaTypeType _ = False"

fun isArchetypeType :: "Type \<Rightarrow> bool" where
  "isArchetypeType (ArchetypeType _) = True"
| "isArchetypeType _ = False"

text \<open>
  Modelled from the spec: \<^verbatim>\<open>SILType\<close> (the IR type handle) is declared outside the
  sources. It is a comparable descriptor made of the underlying type and the addressing
  qualifier, with the derivable facts \<^verbatim>\<open>isAddressOnly\<close>, \<^verbatim>\<open>hasReferenceSemantics\<close> and
  \<^verbatim>\<open>isExistentialType\<close>; the verifier reads each fact through its own query and never
  derives one from another, so they are independent fields here.
\<close>

record SILType =
  getSwiftType :: Type
  isAddress :: bool
  isAddressOnly :: bool
  hasReferenceSemantics :: bool
  isExistentialType :: bool

text \<open>\<^verbatim>\<open>SILType::is<T>()\<close> asks for the shape of the underlying type.\<close>

definition SILType_is_FunctionType :: "SILType \<Rightarrow> bool" where
  "SILType_is_FunctionType ty = isFunctionType (getSwiftType ty)"

definition SILType_is_PolymorphicFunctionType :: "SILType \<Rightarrow> bool" where
  "SILType_is_PolymorphicFunctionType ty = isPolymorphicFunctionType (getSwiftType ty)"

definition SILType_is_AnyFunctionType :: "SILType \<Rightarrow> bool" where
  "SILType_is_AnyFunctionType ty = isAnyFunctionType (getSwiftType ty)"

definition SILType_is_TupleType :: "SILType \<Rightarrow> bool" where
  "SILType_is_TupleType ty = isTupleType (getSwiftType ty)"

definition SILType_is_BuiltinIntegerType :: "SILType \<Rightarrow> bool" where
  "SILType_is_BuiltinIntegerType ty = isBuiltinIntegerType (getSwiftType ty)"

definition SILType_is_MetaTypeType :: "SILType \<Rightarrow> bool" where
  "SILType_is_MetaTypeType ty = isMetaTypeType (getSwiftType ty)"

definition SILType_is_ArchetypeType :: "SILType \<Rightarrow> bool" where
  "SILType_is_ArchetypeType ty = isArchetypeType (getSwiftType ty)"

text \<open>
  Modelled from the spec: \<^verbatim>\<open>getObjectType\<close>, the pointee type of an address, is the
  same underlying type without the addressing qualifier.
\<close>

definition getObjectType :: "SILType \<Rightarrow> SILType" where
  "getObjectType ty = ty\<lparr>isAddress := False\<rparr>"

text \<open>
  A \<^verbatim>\<open>Value\<close> refers to a result of the instruction that defines it; the verifier reads
  nothing but its type. Where the source tests a value for null (the return value, the
  branch condition) the operand is a \<open>Value option\<close>.
\<close>

datatype Value = Value (getDef: nat) (getType: SILType)

text \<open>
  Modelled from the spec: \<^verbatim>\<open>SILFunctionTypeInfo\<close>, the callable signature of a function
  type: the ordered input types and the result type.
\<close>

record SILFunctionTypeInfo =
  getInputTypes :: "SILType list"
  getResultType :: SILType

subsection \<open>Outcomes\<close>

text \<open>
  A failed \<^verbatim>\<open>assert\<close> aborts with its message; \<^verbatim>\<open>llvm_unreachable\<close> stops the process
  with its own message. The source dereferences the signature pointer returned by
  \<^verbatim>\<open>getFunctionTypeInfo\<close> without a test; a run that reaches this dereference with no
  signature is recorded as \<open>NullDereference\<close>, so that it counts neither as accepted nor
  as a failed assertion.
\<close>

datatype error =
    AssertionFailed string
  | Unreachable string
  | NullDereference

type_synonym result = "error + unit"

definition assert :: "bool \<Rightarrow> string \<Rightarrow> result" where
  "assert c msg = (if c then Inr () else Inl (AssertionFailed msg))"

definition llvm_unreachable :: "string \<Rightarrow> result" where
  "llvm_unreachable msg = Inl (Unreachable msg)"

text \<open>Statements run in order; the first one that fails ends the run.\<close>

fun stmts :: "result list \<Rightarrow> result" where
  "stmts [] = Inr ()"
| "stmts (Inl e # _) = Inl e"
| "stmts (Inr _ # rest) = stmts rest"

text \<open>
  The three ways a run ends: the instruction is accepted, an assertion failed (the
  ordinary rejection), or the process stopped outside any assertion.
\<close>

fun accepted :: "result \<Rightarrow> bool" where
  "accepted (Inr _) = True"
| "accepted (Inl _) = False"

fun rejected :: "result \<Rightarrow> bool" where
  "rejected (Inl (AssertionFailed _)) = True"
| "rejected _ = False"

fun fatal :: "result \<Rightarrow> bool" where
  "fatal (Inl (Unreachable _)) = True"
| "fatal (Inl NullDereference) = True"
| "fatal _ = False"

subsection \<open>The rules\<close>

definition visitAllocVarInst :: "SILType \<Rightarrow> result" where
  "visitAllocVarInst ty = assert (isAddress ty) ''alloc_var must return address''"

definition visitAllocRefInst :: "SILType \<Rightarrow> result" where
  "visitAllocRefInst ty =
     assert (hasReferenceSemantics ty \<and> \<not> isAddress ty)
       ''alloc_ref must return reference type value''"

definition visitLoadInst :: "Value \<Rightarrow> SILType \<Rightarrow> result" where
  "visitLoadInst lvalue ty = stmts [
     assert (\<not> isAddress ty) ''Can't load an address'',
     assert (isAddress (getType lvalue)) ''Load operand must be an address'',
     assert (getObjectType (getType lvalue) = ty)
       ''Load operand type and result type mismatch'']"

definition visitStoreInst :: "Value \<Rightarrow> Value \<Rightarrow> result" where
  "visitStoreInst src dest = stmts [
     assert (\<not> isAddress (getType src)) ''Can't store from an address source'',
     assert (isAddress (getType dest)) ''Must store to an address dest'',
     assert (getObjectType (getType dest) = getType src)
       ''Store operand type and dest type mismatch'']"

definition visitCopyAddrInst :: "Value \<Rightarrow> Value \<Rightarrow> result" where
  "visitCopyAddrInst src dest = stmts [
     assert (isAddress (getType src)) ''Src value should be lvalue'',
     assert (isAddress (getType dest)) ''Dest address should be lvalue'',
     assert (getType dest = getType src) ''Store operand type and dest type mismatch'']"

definition visitZeroAddrInst :: "Value \<Rightarrow> result" where
  "visitZeroAddrInst dest =
     assert (isAddress (getType dest)) ''Dest address should be lvalue''"

definition visitZeroValueInst :: "SILType \<Rightarrow> result" where
  "visitZeroValueInst ty = assert (\<not> isAddress ty) ''zero_value cannot create an address''"

definition visitConstantRefInst :: "SILType \<Rightarrow> result" where
  "visitConstantRefInst ty =
     assert (SILType_is_AnyFunctionType ty) ''constant_ref should have a function result''"

definition visitIntegerLiteralInst :: "SILType \<Rightarrow> result" where
  "visitIntegerLiteralInst ty =
     assert (SILType_is_BuiltinIntegerType ty) ''invalid integer literal type''"

definition visitIntegerValueInst :: "SILType \<Rightarrow> result" where
  "visitIntegerValueInst ty =
     assert (SILType_is_BuiltinIntegerType ty) ''invalid integer value type''"

definition visitSpecializeInst :: "Value \<Rightarrow> SILType \<Rightarrow> result" where
  "visitSpecializeInst operand ty = stmts [
     assert (SILType_is_FunctionType ty) ''Specialize dest should be a function type'',
     assert (SILType_is_PolymorphicFunctionType (getType operand))
       ''Specialize source should be a polymorphic function type'']"

text \<open>
  \<^verbatim>\<open>castTo<TupleType>\<close> follows the assertion that the result is a tuple type; the
  field count is read from that tuple type.
\<close>

definition visitTupleInst :: "Value list \<Rightarrow> SILType \<Rightarrow> result" where
  "visitTupleInst elements ty =
     (case getSwiftType ty of
        TupleType resFields \<Rightarrow>
          assert (length elements = length resFields) ''Tuple field count mismatch!''
      | _ \<Rightarrow> Inl (AssertionFailed ''TupleInst should return a tuple''))"

definition visitMetatypeInst :: "SILType \<Rightarrow> result" where
  "visitMetatypeInst ty =
     assert (SILType_is_MetaTypeType ty) ''metatype instruction must be of metatype type''"

definition visitAssociatedMetatypeInst :: "Value \<Rightarrow> SILType \<Rightarrow> result" where
  "visitAssociatedMetatypeInst sourceMetatype ty = stmts [
     assert (SILType_is_MetaTypeType ty) ''associated_metatype instruction must be of metatype type'',
     assert (SILType_is_MetaTypeType (getType sourceMetatype))
       ''associated_metatype operand must be of metatype type'']"

definition visitRetainInst :: "Value \<Rightarrow> result" where
  "visitRetainInst operand = stmts [
     assert (\<not> isAddress (getType operand)) ''Operand of retain must not be address'',
     assert (hasReferenceSemantics (getType operand))
       ''Operand of dealloc_ref must be reference type'']"

definition visitReleaseInst :: "Value \<Rightarrow> result" where
  "visitReleaseInst operand = stmts [
     assert (\<not> isAddress (getType operand)) ''Operand of release must not be address'',
     assert (hasReferenceSemantics (getType operand))
       ''Operand of dealloc_ref must be reference type'']"

definition visitDeallocVarInst :: "Value \<Rightarrow> result" where
  "visitDeallocVarInst operand =
     assert (isAddress (getType operand)) ''Operand of dealloc_var must be address''"

definition visitDeallocRefInst :: "Value \<Rightarrow> result" where
  "visitDeallocRefInst operand = stmts [
     assert (\<not> isAddress (getType operand)) ''Operand of dealloc_ref must not be address'',
     assert (hasReferenceSemantics (getType operand))
       ''Operand of dealloc_ref must be reference type'']"

definition visitDestroyAddrInst :: "Value \<Rightarrow> result" where
  "visitDestroyAddrInst operand =
     assert (isAddressOnly (getType operand)) ''Operand of destroy_addr must be address-only''"

definition visitIndexAddrInst :: "Value \<Rightarrow> SILType \<Rightarrow> result" where
  "visitIndexAddrInst operand ty =
     assert (isAddress ty \<and> ty = getType operand) ''invalid IndexAddrInst''"

definition visitExtractInst :: "Value \<Rightarrow> SILType \<Rightarrow> result" where
  "visitExtractInst operand ty =
     (let operandTy = getType operand in stmts [
        assert (\<not> isAddress operandTy) ''cannot extract from address'',
        assert (\<not> hasReferenceSemantics operandTy) ''cannot extract from reference type'',
        assert (\<not> isAddress ty) ''result of extract cannot be address''])"

definition visitElementAddrInst :: "Value \<Rightarrow> SILType \<Rightarrow> result" where
  "visitElementAddrInst operand ty =
     (let operandTy = getType operand in stmts [
        assert (isAddress operandTy) ''must derive element_addr from address'',
        assert (\<not> hasReferenceSemantics operandTy)
          ''cannot derive element_addr from reference type'',
        assert (isAddress ty) ''result of element_addr must be lvalue''])"

definition visitRefElementAddrInst :: "Value \<Rightarrow> SILType \<Rightarrow> result" where
  "visitRefElementAddrInst operand ty =
     (let operandTy = getType operand in stmts [
        assert (\<not> isAddress operandTy) ''must derive ref_element_addr from non-address'',
        assert (hasReferenceSemantics operandTy)
          ''must derive ref_element_addr from reference type'',
        assert (isAddress ty) ''result of ref_element_addr must be lvalue''])"

text \<open>
  \<^verbatim>\<open>getAs<FunctionType>()\<close> yields the function type or null, and the first assertion
  is on that pointer; \<^verbatim>\<open>isEqual\<close> is equality of types. The last statement is the
  source's three-way branch on the operand: an address, else a metatype, else
  \<^verbatim>\<open>llvm_unreachable\<close>.
\<close>

definition visitArchetypeMethodInst :: "Value \<Rightarrow> SILType \<Rightarrow> result" where
  "visitArchetypeMethodInst operand ty =
     (case getSwiftType ty of
        FunctionType input res \<Rightarrow>
          (let operandType = getType operand in stmts [
             assert (input = getSwiftType operandType) ''result must be a method of the operand'',
             assert (isFunctionType res) ''result must be a method'',
             if isAddress operandType then
               assert (SILType_is_ArchetypeType operandType)
                 ''archetype_method must apply to an archetype address''
             else (case getSwiftType operandType of
                MetaTypeType instanceType \<Rightarrow>
                  assert (isArchetypeType instanceType)
                    ''archetype_method must apply to an archetype metatype''
              | _ \<Rightarrow> llvm_unreachable ''method must apply to an address or metatype'')])
      | _ \<Rightarrow> Inl (AssertionFailed ''result method must be of a concrete function type''))"

definition visitProtocolMethodInst :: "Value \<Rightarrow> SILType \<Rightarrow> result" where
  "visitProtocolMethodInst operand ty =
     (case getSwiftType ty of
        FunctionType input res \<Rightarrow>
          (let operandType = getType operand in stmts [
             assert (input = BuiltinRawPointerType) ''result must be a method of raw pointer'',
             assert (isFunctionType res) ''result must be a method'',
             assert (isAddress operandType)
               ''protocol_method must apply to an existential address'',
             assert (isExistentialType operandType)
               ''protocol_method must apply to an existential address''])
      | _ \<Rightarrow> Inl (AssertionFailed ''result method must be of a concrete function type''))"

definition visitProjectExistentialInst :: "Value \<Rightarrow> result" where
  "visitProjectExistentialInst operand =
     (let operandType = getType operand in stmts [
        assert (isAddress operandType) ''project_existential must be applied to address'',
        assert (isExistentialType operandType)
          ''project_existential must be applied to address of existential''])"

definition visitInitExistentialInst :: "Value \<Rightarrow> result" where
  "visitInitExistentialInst existential =
     (let exType = getType existential in stmts [
        assert (isAddress exType) ''init_existential must be applied to an address'',
        assert (isExistentialType exType)
          ''init_existential must be applied to address of existential''])"

definition visitDeinitExistentialInst :: "Value \<Rightarrow> result" where
  "visitDeinitExistentialInst existential =
     (let exType = getType existential in stmts [
        assert (isAddress exType) ''deinit_existential must be applied to an address'',
        assert (isExistentialType exType)
          ''deinit_existential must be applied to address of existential''])"

definition visitArchetypeToSuperInst :: "Value \<Rightarrow> SILType \<Rightarrow> result" where
  "visitArchetypeToSuperInst operand ty = stmts [
     assert (isAddressOnly (getType operand)) ''archetype_to_super operand must be an address'',
     assert (SILType_is_ArchetypeType (getType operand)) ''archetype_to_super operand must be archetype'',
     assert (hasReferenceSemantics ty) ''archetype_to_super must convert to a reference type'']"

definition visitSuperToArchetypeInst :: "Value \<Rightarrow> Value \<Rightarrow> result" where
  "visitSuperToArchetypeInst srcBase destArchetypeAddress = stmts [
     assert (hasReferenceSemantics (getType srcBase))
       ''super_to_archetype source must be a reference type'',
     assert (SILType_is_ArchetypeType (getType destArchetypeAddress))
       ''super_to_archetype dest must be an archetype address'']"

definition visitDowncastInst :: "Value \<Rightarrow> SILType \<Rightarrow> result" where
  "visitDowncastInst operand ty = stmts [
     assert (hasReferenceSemantics (getType operand)) ''downcast operand must be a reference type'',
     assert (hasReferenceSemantics ty) ''downcast must convert to a reference type'']"

definition visitBranchInst :: result where
  "visitBranchInst = Inr ()"

definition visitCondBranchInst :: "Value option \<Rightarrow> result" where
  "visitCondBranchInst condition =
     assert (condition \<noteq> None) ''Condition of conditional branch can't be missing''"

subsection \<open>Instructions, blocks and functions\<close>

text \<open>
  One constructor for each instruction class the verifier has a rule for, carrying what
  the rule reads: the operands, and the result type of an instruction that has one.
\<close>

datatype Instruction =
    AllocVarInst SILType
  | AllocRefInst SILType
  | ApplyInst Value "Value list" SILType
  | ConstantRefInst SILType
  | IntegerLiteralInst SILType
  | LoadInst Value SILType
  | StoreInst Value Value
  | CopyAddrInst Value Value
  | ZeroAddrInst Value
  | ZeroValueInst SILType
  | SpecializeInst Value SILType
  | TupleInst "Value list" SILType
  | MetatypeInst SILType
  | AssociatedMetatypeInst Value SILType
  | RetainInst Value
  | ReleaseInst Value
  | DeallocVarInst Value
  | DeallocRefInst Value
  | DestroyAddrInst Value
  | IndexAddrInst Value SILType
  | ExtractInst Value SILType
  | ElementAddrInst Value SILType
  | RefElementAddrInst Value SILType
  | ArchetypeMethodInst Value SILType
  | ProtocolMethodInst Value SILType
  | ProjectExistentialInst Value
  | InitExistentialInst Value
  | DeinitExistentialInst Value
  | ArchetypeToSuperInst Value SILType
  | SuperToArchetypeInst Value Value
  | DowncastInst Value SILType
  | IntegerValueInst SILType
  | ReturnInst "Value option"
  | BranchInst
  | CondBranchInst "Value option"

type_synonym BasicBlock = "Instruction list"

text \<open>
  Modelled from the spec: \<^verbatim>\<open>SILModule::getFunctionTypeInfo\<close>, the function signature
  provider, is declared outside the sources. It returns a pointer to the signature of a
  callable's type; the pointer is an \<open>option\<close>, \<open>None\<close> when no signature is resolved.
\<close>

record SILModule =
  getFunctionTypeInfo :: "SILType \<Rightarrow> SILFunctionTypeInfo option"

record Function =
  getModule :: SILModule
  getLoweredType :: SILType
  getBlocks :: "BasicBlock list"

text \<open>
  The loop of \<^verbatim>\<open>visitApplyInst\<close> over the argument positions \<open>i = 0, ..., sz - 1\<close>; it
  runs after the assertion that the two sequences have the same length.
\<close>

function applyArgumentsLoop :: "nat \<Rightarrow> nat \<Rightarrow> Value list \<Rightarrow> SILType list \<Rightarrow> result" where
  "applyArgumentsLoop i sz args inputs =
     (if i < sz then
        (case assert (getType (args ! i) = inputs ! i)
                ''input types to apply don't match function input types'' of
           Inl e \<Rightarrow> Inl e
         | Inr _ \<Rightarrow> applyArgumentsLoop (i + 1) sz args inputs)
      else Inr ())"
  by pat_completeness auto
termination
  by (relation "measure (\<lambda>(i, sz, args, inputs). sz - i)") auto

declare applyArgumentsLoop.simps [simp del]

definition visitApplyInst :: "Function \<Rightarrow> Value \<Rightarrow> Value list \<Rightarrow> SILType \<Rightarrow> result" where
  "visitApplyInst F callee args ty =
     (let calleeTy = getType callee in stmts [
        assert (\<not> isAddress calleeTy) ''callee of apply cannot be an address'',
        assert (SILType_is_FunctionType calleeTy) ''callee of apply must have concrete function type'',
        case getFunctionTypeInfo (getModule F) calleeTy of
          None \<Rightarrow> Inl NullDereference
        | Some ti \<Rightarrow> stmts [
            assert (length args = length (getInputTypes ti))
              ''apply doesn't have right number of arguments for function'',
            applyArgumentsLoop 0 (length args) args (getInputTypes ti),
            assert (ty = getResultType ti)
              ''type of apply instruction doesn't match function result type'']])"

text \<open>
  The rule for \<^verbatim>\<open>return\<close> has the function at hand, but the comparison of the returned
  value's type with the result type of \<^verbatim>\<open>F.getLoweredType()\<close> is commented out in the
  source (a FIXME about curry entry points), so only the null test remains.
\<close>

definition visitReturnInst :: "Function \<Rightarrow> Value option \<Rightarrow> result" where
  "visitReturnInst F returnValue =
     assert (returnValue \<noteq> None) ''Return of null value is invalid''"

text \<open>
  Modelled from the spec: \<^verbatim>\<open>TermInst\<close> is declared outside the sources. The terminator
  kinds are return, unconditional branch and conditional branch.
\<close>

fun isa_TermInst :: "Instruction \<Rightarrow> bool" where
  "isa_TermInst (ReturnInst _) = True"
| "isa_TermInst BranchInst = True"
| "isa_TermInst (CondBranchInst _) = True"
| "isa_TermInst _ = False"

text \<open>
  Modelled from the spec: the dispatch of \<^verbatim>\<open>SILVisitor\<close> (swift/SIL/SILVisitor.h, not
  part of the sources) maps each instruction's kind to exactly one rule.
\<close>

fun SILVisitor_visit :: "Function \<Rightarrow> Instruction \<Rightarrow> result" where
  "SILVisitor_visit F (AllocVarInst ty) = visitAllocVarInst ty"
| "SILVisitor_visit F (AllocRefInst ty) = visitAllocRefInst ty"
| "SILVisitor_visit F (ApplyInst callee args ty) = visitApplyInst F callee args ty"
| "SILVisitor_visit F (ConstantRefInst ty) = visitConstantRefInst ty"
| "SILVisitor_visit F (IntegerLiteralInst ty) = visitIntegerLiteralInst ty"
| "SILVisitor_visit F (LoadInst lvalue ty) = visitLoadInst lvalue ty"
| "SILVisitor_visit F (StoreInst src dest) = visitStoreInst src dest"
| "SILVisitor_visit F (CopyAddrInst src dest) = visitCopyAddrInst src dest"
| "SILVisitor_visit F (ZeroAddrInst dest) = visitZeroAddrInst dest"
| "SILVisitor_visit F (ZeroValueInst ty) = visitZeroValueInst ty"
| "SILVisitor_visit F (SpecializeInst operand ty) = visitSpecializeInst operand ty"
| "SILVisitor_visit F (TupleInst elements ty) = visitTupleInst elements ty"
| "SILVisitor_visit F (MetatypeInst ty) = visitMetatypeInst ty"
| "SILVisitor_visit F (AssociatedMetatypeInst src ty) = visitAssociatedMetatypeInst src ty"
| "SILVisitor_visit F (RetainInst operand) = visitRetainInst operand"
| "SILVisitor_visit F (ReleaseInst operand) = visitReleaseInst operand"
| "SILVisitor_visit F (DeallocVarInst operand) = visitDeallocVarInst operand"
| "SILVisitor_visit F (DeallocRefInst operand) = visitDeallocRefInst operand"
| "SILVisitor_visit F (DestroyAddrInst operand) = visitDestroyAddrInst operand"
| "SILVisitor_visit F (IndexAddrInst operand ty) = visitIndexAddrInst operand ty"
| "SILVisitor_visit F (ExtractInst operand ty) = visitExtractInst operand ty"
| "SILVisitor_visit F (ElementAddrInst operand ty) = visitElementAddrInst operand ty"
| "SILVisitor_visit F (RefElementAddrInst operand ty) = visitRefElementAddrInst operand ty"
| "SILVisitor_visit F (ArchetypeMethodInst operand ty) = visitArchetypeMethodInst operand ty"
| "SILVisitor_visit F (ProtocolMethodInst operand ty) = visitProtocolMethodInst operand ty"
| "SILVisitor_visit F (ProjectExistentialInst operand) = visitProjectExistentialInst operand"
| "SILVisitor_visit F (InitExistentialInst ex) = visitInitExistentialInst ex"
| "SILVisitor_visit F (DeinitExistentialInst ex) = visitDeinitExistentialInst ex"
| "SILVisitor_visit F (ArchetypeToSuperInst operand ty) = visitArchetypeToSuperInst operand ty"
| "SILVisitor_visit F (SuperToArchetypeInst src dest) = visitSuperToArchetypeInst src dest"
| "SILVisitor_visit F (DowncastInst operand ty) = visitDowncastInst operand ty"
| "SILVisitor_visit F (IntegerValueInst ty) = visitIntegerValueInst ty"
| "SILVisitor_visit F (ReturnInst returnValue) = visitReturnInst F returnValue"
| "SILVisitor_visit F BranchInst = visitBranchInst"
| "SILVisitor_visit F (CondBranchInst condition) = visitCondBranchInst condition"

text \<open>
  \<^verbatim>\<open>SILVerifier::visit\<close>. The instruction \<open>I\<close> is the one at position \<open>i\<close> of its parent
  block \<open>BB\<close> (\<open>i < length BB\<close>), and the last instruction of \<open>BB\<close> is the one at position
  \<open>length BB - 1\<close>, so the source's comparison of \<open>I\<close> with the address of the last
  instruction is a comparison of positions.
\<close>

definition visit :: "Function \<Rightarrow> BasicBlock \<Rightarrow> nat \<Rightarrow> result" where
  "visit F BB i =
     (let I = BB ! i in stmts [
        if \<not> isa_TermInst I then stmts [
          assert (BB \<noteq> []) ''Can't be in a parent block if it is empty'',
          assert (length BB - 1 \<noteq> i) ''Non-terminators cannot be the last in a block'']
        else
          assert (length BB - 1 = i) ''Terminator must be the last in block'',
        SILVisitor_visit F I])"

text \<open>
  Modelled from the spec: the walk of \<^verbatim>\<open>SILVisitor::visitFunction\<close> (not part of the
  sources) goes through the blocks in the order they are stored and through each block's
  instructions in sequence, and visits every instruction.
\<close>

definition visitBasicBlock :: "Function \<Rightarrow> BasicBlock \<Rightarrow> result" where
  "visitBasicBlock F BB = stmts (map (visit F BB) [0..<length BB])"

definition visitFunction :: "Function \<Rightarrow> result" where
  "visitFunction F = stmts (map (visitBasicBlock F) (getBlocks F))"

definition verify :: "Function \<Rightarrow> result" where
  "verify F = visitFunction F"

subsection \<open>Example types and an example module\<close>

text \<open>
  Concrete inputs for the instances below: a loadable value type, a reference type and an
  address-only type over a given underlying type, the address of a type, and a module
  that resolves the signature of \<open>(Int, Bool) -> Int\<close> and of no other type.
\<close>

definition valueType :: "Type \<Rightarrow> SILType" where
  "valueType t = \<lparr>getSwiftType = t, isAddress = False, isAddressOnly = False,
     hasReferenceSemantics = False, isExistentialType = False\<rparr>"

definition addressOf :: "SILType \<Rightarrow> SILType" where
  "addressOf ty = ty\<lparr>isAddress := True\<rparr>"

definition referenceType :: "Type \<Rightarrow> SILType" where
  "referenceType t = (valueType t)\<lparr>hasReferenceSemantics := True\<rparr>"

definition addressOnlyType :: "Type \<Rightarrow> SILType" where
  "addressOnlyType t = (valueType t)\<lparr>isAddressOnly := True\<rparr>"

definition Int_t :: Type where
  "Int_t = BuiltinIntegerType 64"

definition Bool_t :: Type where
  "Bool_t = BuiltinIntegerType 1"

definition binaryFn_t :: Type where
  "binaryFn_t = FunctionType (TupleType [Int_t, Bool_t]) Int_t"

definition exampleModule :: SILModule where
  "exampleModule = \<lparr>getFunctionTypeInfo = (\<lambda>ty.
     if ty = referenceType binaryFn_t
     then Some \<lparr>getInputTypes = [valueType Int_t, valueType Bool_t],
                 getResultType = valueType Int_t\<rparr>
     else None)\<rparr>"

definition exampleFunction :: "BasicBlock list \<Rightarrow> Function" where
  "exampleFunction blocks =
     \<lparr>getModule = exampleModule, getLoweredType = referenceType binaryFn_t,
      getBlocks = blocks\<rparr>"

text \<open>
  The entry block \<open>[alloc_var, integer_literal, store, load, return]\<close>: a slot for an
  \<open>Int\<close>, a literal stored to it, loaded back and returned.
\<close>

definition entryBlock :: BasicBlock where
  "entryBlock =
     [AllocVarInst (addressOf (valueType Int_t)),
      IntegerLiteralInst (valueType Int_t),
      StoreInst (Value 1 (valueType Int_t)) (Value 0 (addressOf (valueType Int_t))),
      LoadInst (Value 0 (addressOf (valueType Int_t))) (valueType Int_t),
      ReturnInst (Some (Value 3 (valueType Int_t)))]"

lemmas example_defs = valueType_def addressOf_def referenceType_def addressOnlyType_def
  Int_t_def Bool_t_def binaryFn_t_def exampleModule_def exampleFunction_def

section \<open>Properties\<close>

subsection \<open>Assertions and statement sequences\<close>

lemma accepted_iff: "accepted r \<longleftrightarrow> r = Inr ()"
  by (cases r) auto

lemma accepted_assert [simp]: "accepted (assert c msg) \<longleftrightarrow> c"
  by (simp add: assert_def)

lemma rejected_assert [simp]: "rejected (assert c msg) \<longleftrightarrow> \<not> c"
  by (simp add: assert_def)

lemma fatal_assert [simp]: "\<not> fatal (assert c msg)"
  by (simp add: assert_def)

lemma stmts_assert_Cons [simp]:
  "stmts (assert c msg # rest) = (if c then stmts rest else Inl (AssertionFailed msg))"
  by (simp add: assert_def)

lemma stmts_single [simp]: "stmts [r] = r"
  by (cases r) auto

lemma stmts_accepted: "stmts rs = Inr () \<longleftrightarrow> (\<forall>r \<in> set rs. r = Inr ())"
proof (induction rs)
  case Nil
  show ?case by simp
next
  case (Cons r rs)
  show ?case
  proof (cases r)
    case (Inl e)
    then show ?thesis by simp
  next
    case (Inr u)
    with Cons show ?thesis by simp
  qed
qed

subsection \<open>Positions and the walk\<close>

text \<open>
  The outcome of \<^verbatim>\<open>visit\<close> on the instruction at position \<open>i\<close> of a block, by the kind
  of the instruction and its position; a block passes the walk exactly when each of its
  instructions passes \<^verbatim>\<open>visit\<close>.
\<close>

lemma visit_position:
  assumes "i < length BB"
  shows "visit F BB i =
     (if isa_TermInst (BB ! i) then
        (if i = length BB - 1 then SILVisitor_visit F (BB ! i)
         else Inl (AssertionFailed ''Terminator must be the last in block''))
      else
        (if i = length BB - 1 then
           Inl (AssertionFailed ''Non-terminators cannot be the last in a block'')
         else SILVisitor_visit F (BB ! i)))"
proof -
  from assms have "BB \<noteq> []" by auto
  then show ?thesis
    by (auto simp: visit_def Let_def)
qed

lemma visitBasicBlock_accepted:
  "visitBasicBlock F BB = Inr () \<longleftrightarrow> (\<forall>i < length BB. visit F BB i = Inr ())"
  by (auto simp: visitBasicBlock_def stmts_accepted)

lemma entryBlock_verifies: "verify (exampleFunction [entryBlock]) = Inr ()"
  by (simp add: verify_def visitFunction_def visitBasicBlock_def visit_def entryBlock_def
      exampleFunction_def visitAllocVarInst_def visitIntegerLiteralInst_def visitStoreInst_def
      visitLoadInst_def visitReturnInst_def getObjectType_def SILType_is_BuiltinIntegerType_def
      valueType_def addressOf_def Int_t_def assert_def)

subsection \<open>Reference counting and reference objects\<close>

text \<open>
  Claim C9. The rules for retain, release, alloc_ref (on its result type) and
  dealloc_ref each accept exactly when the type has reference semantics and is not an
  address; a type that is an address, or that lacks reference semantics, fails an
  assertion.
\<close>

theorem reference_semantics_exclusivity:
  "(accepted (visitRetainInst v) \<longleftrightarrow>
      hasReferenceSemantics (getType v) \<and> \<not> isAddress (getType v)) \<and>
   (rejected (visitRetainInst v) \<longleftrightarrow>
      isAddress (getType v) \<or> \<not> hasReferenceSemantics (getType v)) \<and>
   (accepted (visitReleaseInst v) \<longleftrightarrow>
      hasReferenceSemantics (getType v) \<and> \<not> isAddress (getType v)) \<and>
   (rejected (visitReleaseInst v) \<longleftrightarrow>
      isAddress (getType v) \<or> \<not> hasReferenceSemantics (getType v)) \<and>
   (accepted (visitAllocRefInst ty) \<longleftrightarrow>
      hasReferenceSemantics ty \<and> \<not> isAddress ty) \<and>
   (rejected (visitAllocRefInst ty) \<longleftrightarrow>
      isAddress ty \<or> \<not> hasReferenceSemantics ty) \<and>
   (accepted (visitDeallocRefInst v) \<longleftrightarrow>
      hasReferenceSemantics (getType v) \<and> \<not> isAddress (getType v)) \<and>
   (rejected (visitDeallocRefInst v) \<longleftrightarrow>
      isAddress (getType v) \<or> \<not> hasReferenceSemantics (getType v))"
  by (auto simp: visitRetainInst_def visitReleaseInst_def visitAllocRefInst_def
      visitDeallocRefInst_def)

text \<open>
  Claim C10. The retain rule and the release rule are the same predicate on the operand:
  one accepts exactly when the other does, and likewise for rejection.
\<close>

theorem retain_release_same_predicate:
  "accepted (visitRetainInst v) = accepted (visitReleaseInst v) \<and>
   rejected (visitRetainInst v) = rejected (visitReleaseInst v)"
  by (simp add: visitRetainInst_def visitReleaseInst_def)

subsection \<open>Return\<close>

text \<open>
  Claim C6. The return rule rejects the instruction exactly when its return value is
  absent. A return that carries a value is accepted whatever the value's type and
  whatever the function \<open>F\<close> it belongs to: no comparison with the declared result
  type of \<open>F\<close> takes place.
\<close>

theorem return_rule:
  "(rejected (visitReturnInst F returnValue) \<longleftrightarrow> returnValue = None) \<and>
   (accepted (visitReturnInst F returnValue) \<longleftrightarrow> returnValue \<noteq> None) \<and>
   visitReturnInst F (Some v) = Inr ()"
  by (simp add: visitReturnInst_def assert_def)

text \<open>
  An instance: the function's signature has result type \<open>Int\<close>, the returned value has
  type \<open>Bool\<close>, and the return is accepted; the return without a value is rejected.
\<close>

theorem return_rule_witness:
  "getType (Value 0 (valueType Bool_t)) \<noteq> valueType Int_t \<and>
   getFunctionTypeInfo (getModule (exampleFunction [])) (getLoweredType (exampleFunction []))
     = Some \<lparr>getInputTypes = [valueType Int_t, valueType Bool_t],
              getResultType = valueType Int_t\<rparr> \<and>
   visitReturnInst (exampleFunction []) (Some (Value 0 (valueType Bool_t))) = Inr () \<and>
   rejected (visitReturnInst (exampleFunction []) None)"
  using return_rule [of "exampleFunction []" None "Value 0 (valueType Bool_t)"]
  by (simp add: example_defs)

subsection \<open>Load and store\<close>

text \<open>
  Claim C8. For an address \<open>a\<close> with pointee type \<open>T\<close> and a value \<open>v\<close> of type \<open>T\<close>,
  the store of \<open>v\<close> to \<open>a\<close> and the load from \<open>a\<close> with result type \<open>T\<close> both pass
  their rules, and \<open>T\<close> is the only result type with which a load from \<open>a\<close> passes;
  where the store is followed by the load inside a block, with an instruction after
  them, both pass \<^verbatim>\<open>visit\<close>. The load rule accepts exactly when the source is an
  address, the result is not an address, and the result type is the pointee type of the
  source.
\<close>

theorem load_store_round_trip:
  "(isAddress (getType a) \<and> getObjectType (getType a) = T \<and> getType v = T \<longrightarrow>
      visitStoreInst v a = Inr () \<and> visitLoadInst a T = Inr () \<and>
      (\<forall>R. visitLoadInst a R = Inr () \<longrightarrow> R = T) \<and>
      (\<forall>F BB i. i + 2 < length BB \<and> BB ! i = StoreInst v a \<and> BB ! (i + 1) = LoadInst a T \<longrightarrow>
         visit F BB i = Inr () \<and> visit F BB (i + 1) = Inr ())) \<and>
   (accepted (visitLoadInst lvalue ty) \<longleftrightarrow>
      isAddress (getType lvalue) \<and> \<not> isAddress ty \<and> ty = getObjectType (getType lvalue))"
proof -
  have rules: "visitStoreInst v a = Inr () \<and> visitLoadInst a T = Inr () \<and>
      (\<forall>R. visitLoadInst a R = Inr () \<longrightarrow> R = T)"
    if "isAddress (getType a)" and "getObjectType (getType a) = T" and "getType v = T"
    using that by (auto simp: visitStoreInst_def visitLoadInst_def getObjectType_def assert_def)
  have seq: "visit F BB i = Inr () \<and> visit F BB (i + 1) = Inr ()"
    if st: "visitStoreInst v a = Inr ()" and ld: "visitLoadInst a T = Inr ()"
      and i: "i + 2 < length BB" and s: "BB ! i = StoreInst v a"
      and l: "BB ! (i + 1) = LoadInst a T" for F BB i
  proof -
    from i have "i < length BB" and "i + 1 < length BB"
      and "i \<noteq> length BB - 1" and "i + 1 \<noteq> length BB - 1" by simp_all
    then show ?thesis
      using s l st ld by (simp add: visit_position)
  qed
  have load: "accepted (visitLoadInst lvalue ty) \<longleftrightarrow>
      isAddress (getType lvalue) \<and> \<not> isAddress ty \<and> ty = getObjectType (getType lvalue)"
    by (auto simp: visitLoadInst_def getObjectType_def assert_def)
  from rules seq load show ?thesis by blast
qed

text \<open>
  An instance: the store and the load of the entry block, at positions 2 and 3.
\<close>

theorem load_store_round_trip_witness:
  "isAddress (getType (Value 0 (addressOf (valueType Int_t)))) \<and>
   getObjectType (getType (Value 0 (addressOf (valueType Int_t)))) = valueType Int_t \<and>
   getType (Value 1 (valueType Int_t)) = valueType Int_t \<and>
   visitStoreInst (Value 1 (valueType Int_t)) (Value 0 (addressOf (valueType Int_t))) = Inr () \<and>
   visitLoadInst (Value 0 (addressOf (valueType Int_t))) (valueType Int_t) = Inr () \<and>
   2 + 2 < length entryBlock \<and>
   entryBlock ! 2 =
     StoreInst (Value 1 (valueType Int_t)) (Value 0 (addressOf (valueType Int_t))) \<and>
   entryBlock ! (2 + 1) = LoadInst (Value 0 (addressOf (valueType Int_t))) (valueType Int_t) \<and>
   visit (exampleFunction [entryBlock]) entryBlock 2 = Inr () \<and>
   visit (exampleFunction [entryBlock]) entryBlock (2 + 1) = Inr ()"
proof -
  have pre: "isAddress (getType (Value 0 (addressOf (valueType Int_t)))) \<and>
      getObjectType (getType (Value 0 (addressOf (valueType Int_t)))) = valueType Int_t \<and>
      getType (Value 1 (valueType Int_t)) = valueType Int_t"
    by (simp add: example_defs getObjectType_def)
  have pos: "2 + 2 < length entryBlock \<and>
      entryBlock ! 2 =
        StoreInst (Value 1 (valueType Int_t)) (Value 0 (addressOf (valueType Int_t))) \<and>
      entryBlock ! (2 + 1) = LoadInst (Value 0 (addressOf (valueType Int_t))) (valueType Int_t)"
    by (simp add: entryBlock_def numeral_2_eq_2 numeral_3_eq_3)
  from pre pos load_store_round_trip [of "Value 0 (addressOf (valueType Int_t))" "valueType Int_t"
      "Value 1 (valueType Int_t)"]
  show ?thesis by blast
qed

subsection \<open>Casts between archetypes and classes\<close>

text \<open>
  Claim C3. The message of the first assertion of the archetype_to_super rule asks for an
  operand that is an address, but the condition it tests is \<^verbatim>\<open>isAddressOnly\<close>, and no
  assertion of the rule tests \<^verbatim>\<open>isAddress\<close>. The operand below is the object type of an
  address-only archetype: it is not an address, and the rule accepts the instruction.
\<close>

theorem archetype_to_super_accepts_non_address:
  "\<not> isAddress (getType (Value 0 (addressOnlyType (ArchetypeType ''T'')))) \<and>
   visitArchetypeToSuperInst (Value 0 (addressOnlyType (ArchetypeType ''T'')))
     (referenceType (NominalType ''Base'')) = Inr ()"
  by (simp add: visitArchetypeToSuperInst_def example_defs SILType_is_ArchetypeType_def assert_def)

text \<open>
  Claim C4. The second assertion of the super_to_archetype rule, whose message asks for
  an archetype address, tests only that the destination's type is an archetype. The
  destination below is an archetype that is not an address, and the rule accepts the
  instruction.
\<close>

theorem super_to_archetype_accepts_non_address:
  "\<not> isAddress (getType (Value 1 (addressOnlyType (ArchetypeType ''T'')))) \<and>
   visitSuperToArchetypeInst (Value 0 (referenceType (NominalType ''Base'')))
     (Value 1 (addressOnlyType (ArchetypeType ''T''))) = Inr ()"
  by (simp add: visitSuperToArchetypeInst_def example_defs SILType_is_ArchetypeType_def assert_def)

subsection \<open>Apply\<close>

text \<open>
  The loop over the argument positions accepts exactly when every position from \<open>i\<close> up
  to \<open>sz\<close> has an argument of the input type at that position, and it never ends
  otherwise than by accepting or by a failed assertion.
\<close>

lemma applyArgumentsLoop_accepted:
  "applyArgumentsLoop i sz args inputs = Inr () \<longleftrightarrow>
     (\<forall>k. i \<le> k \<and> k < sz \<longrightarrow> getType (args ! k) = inputs ! k)"
proof (induction i sz args inputs rule: applyArgumentsLoop.induct)
  case (1 i sz args inputs)
  show ?case
  proof (cases "i < sz")
    case False
    then show ?thesis by (subst applyArgumentsLoop.simps) auto
  next
    case True
    show ?thesis
    proof (cases "getType (args ! i) = inputs ! i")
      case False
      with True show ?thesis
        by (subst applyArgumentsLoop.simps) (auto simp: assert_def)
    next
      case same: True
      have IH: "applyArgumentsLoop (i + 1) sz args inputs = Inr () \<longleftrightarrow>
         (\<forall>k. i + 1 \<le> k \<and> k < sz \<longrightarrow> getType (args ! k) = inputs ! k)"
        using "1.IH" [OF True, of "()"] same by (simp add: assert_def)
      have "applyArgumentsLoop i sz args inputs = applyArgumentsLoop (i + 1) sz args inputs"
        using True same by (subst applyArgumentsLoop.simps) (simp add: assert_def)
      moreover have "(\<forall>k. i \<le> k \<and> k < sz \<longrightarrow> getType (args ! k) = inputs ! k) \<longleftrightarrow>
          (\<forall>k. i + 1 \<le> k \<and> k < sz \<longrightarrow> getType (args ! k) = inputs ! k)"
      proof
        assume "\<forall>k. i \<le> k \<and> k < sz \<longrightarrow> getType (args ! k) = inputs ! k"
        then show "\<forall>k. i + 1 \<le> k \<and> k < sz \<longrightarrow> getType (args ! k) = inputs ! k" by simp
      next
        assume later: "\<forall>k. i + 1 \<le> k \<and> k < sz \<longrightarrow> getType (args ! k) = inputs ! k"
        show "\<forall>k. i \<le> k \<and> k < sz \<longrightarrow> getType (args ! k) = inputs ! k"
        proof (intro allI impI)
          fix k assume k: "i \<le> k \<and> k < sz"
          show "getType (args ! k) = inputs ! k"
          proof (cases "k = i")
            case True
            with same show ?thesis by simp
          next
            case False
            with k have "i + 1 \<le> k \<and> k < sz" by simp
            with later show ?thesis by blast
          qed
        qed
      qed
      ultimately show ?thesis using IH by simp
    qed
  qed
qed

lemma applyArgumentsLoop_rejected:
  "accepted (applyArgumentsLoop i sz args inputs) \<or>
   rejected (applyArgumentsLoop i sz args inputs)"
proof (induction i sz args inputs rule: applyArgumentsLoop.induct)
  case (1 i sz args inputs)
  show ?case
  proof (cases "i < sz \<and> getType (args ! i) = inputs ! i")
    case True
    then have "applyArgumentsLoop i sz args inputs = applyArgumentsLoop (i + 1) sz args inputs"
      by (subst applyArgumentsLoop.simps) (simp add: assert_def)
    moreover have "accepted (applyArgumentsLoop (i + 1) sz args inputs) \<or>
        rejected (applyArgumentsLoop (i + 1) sz args inputs)"
      using "1.IH" [of "()"] True by (simp add: assert_def)
    ultimately show ?thesis by simp
  next
    case False
    then show ?thesis
      by (subst (1 2) applyArgumentsLoop.simps) (auto simp: assert_def)
  qed
qed

lemma visitApplyInst_resolved:
  assumes "\<not> isAddress (getType callee)" and "SILType_is_FunctionType (getType callee)"
    and "getFunctionTypeInfo (getModule F) (getType callee) = Some ti"
  shows "visitApplyInst F callee args ty =
     (if length args = length (getInputTypes ti) then
        (case applyArgumentsLoop 0 (length args) args (getInputTypes ti) of
           Inl e \<Rightarrow> Inl e
         | Inr _ \<Rightarrow> assert (ty = getResultType ti)
             ''type of apply instruction doesn't match function result type'')
      else Inl (AssertionFailed ''apply doesn't have right number of arguments for function''))"
  using assms by (simp add: visitApplyInst_def Let_def split: sum.splits)

text \<open>
  Claim C1. Let the callee of an apply be a non-address value of concrete function type
  whose signature resolves to the inputs \<open>getInputTypes ti\<close> and the result
  \<open>getResultType ti\<close>. The rule accepts the instruction exactly when the number of
  arguments is the number of inputs, the type of the argument at each position is the
  input type at that position, and the result type of the instruction is the result
  type of the signature; otherwise an assertion fails. If an accepted instruction has
  arguments of differing types at two positions, the instruction with these two arguments
  exchanged is rejected.
\<close>

theorem apply_arity_positional_types:
  assumes "\<not> isAddress (getType callee)" and "SILType_is_FunctionType (getType callee)"
    and "getFunctionTypeInfo (getModule F) (getType callee) = Some ti"
  shows "(accepted (visitApplyInst F callee args ty) \<longleftrightarrow>
            length args = length (getInputTypes ti) \<and>
            (\<forall>i < length args. getType (args ! i) = getInputTypes ti ! i) \<and>
            ty = getResultType ti) \<and>
         (accepted (visitApplyInst F callee args ty) \<or>
            rejected (visitApplyInst F callee args ty)) \<and>
         (\<forall>i j. accepted (visitApplyInst F callee args ty) \<and>
                i < length args \<and> j < length args \<and>
                getType (args ! i) \<noteq> getType (args ! j) \<longrightarrow>
                rejected (visitApplyInst F callee (args[i := args ! j, j := args ! i]) ty))"
proof -
  let ?inputs = "getInputTypes ti"
  have acc: "accepted (visitApplyInst F callee xs ty) \<longleftrightarrow>
            length xs = length ?inputs \<and>
            (\<forall>i < length xs. getType (xs ! i) = ?inputs ! i) \<and>
            ty = getResultType ti" for xs
  proof (cases "applyArgumentsLoop 0 (length xs) xs ?inputs")
    case (Inl e)
    then have "\<not> (\<forall>k. 0 \<le> k \<and> k < length xs \<longrightarrow> getType (xs ! k) = ?inputs ! k)"
      using applyArgumentsLoop_accepted [of 0 "length xs" xs ?inputs] by simp
    with Inl show ?thesis
      by (auto simp: visitApplyInst_resolved [OF assms])
  next
    case (Inr u)
    then have "\<forall>k. 0 \<le> k \<and> k < length xs \<longrightarrow> getType (xs ! k) = ?inputs ! k"
      using applyArgumentsLoop_accepted [of 0 "length xs" xs ?inputs] by simp
    with Inr show ?thesis
      by (auto simp: visitApplyInst_resolved [OF assms])
  qed
  have rej: "accepted (visitApplyInst F callee xs ty) \<or>
            rejected (visitApplyInst F callee xs ty)" for xs
    using applyArgumentsLoop_rejected [of 0 "length xs" xs ?inputs]
    by (cases "applyArgumentsLoop 0 (length xs) xs ?inputs")
       (auto simp: visitApplyInst_resolved [OF assms] assert_def split: if_splits)
  have swap: "rejected (visitApplyInst F callee (args[i := args ! j, j := args ! i]) ty)"
    if a: "accepted (visitApplyInst F callee args ty)" and i: "i < length args"
      and j: "j < length args" and ne: "getType (args ! i) \<noteq> getType (args ! j)" for i j
  proof -
    let ?xs = "args[i := args ! j, j := args ! i]"
    from a acc [of args] have ty_i: "getType (args ! i) = ?inputs ! i"
      and ty_j: "getType (args ! j) = ?inputs ! j" using i j by auto
    from ne have "i \<noteq> j" by auto
    then have "?xs ! i = args ! j" using i j by simp
    with ne ty_i have "getType (?xs ! i) \<noteq> ?inputs ! i" by simp
    moreover have "i < length ?xs" using i by simp
    ultimately have "\<not> accepted (visitApplyInst F callee ?xs ty)"
      using acc [of ?xs] by blast
    with rej [of ?xs] show ?thesis by blast
  qed
  from acc [of args] rej [of args] swap show ?thesis by blast
qed

text \<open>
  An instance: the callee has type \<open>(Int, Bool) -> Int\<close>; the arguments \<open>(Int, Bool)\<close> are
  accepted, the exchanged arguments \<open>(Bool, Int)\<close> and the single argument \<open>(Int)\<close> are
  rejected.
\<close>

theorem apply_arity_positional_types_witness:
  "\<not> isAddress (getType (Value 0 (referenceType binaryFn_t))) \<and>
   SILType_is_FunctionType (getType (Value 0 (referenceType binaryFn_t))) \<and>
   getFunctionTypeInfo (getModule (exampleFunction []))
       (getType (Value 0 (referenceType binaryFn_t))) =
     Some \<lparr>getInputTypes = [valueType Int_t, valueType Bool_t],
            getResultType = valueType Int_t\<rparr> \<and>
   accepted (visitApplyInst (exampleFunction []) (Value 0 (referenceType binaryFn_t))
     [Value 1 (valueType Int_t), Value 2 (valueType Bool_t)] (valueType Int_t)) \<and>
   rejected (visitApplyInst (exampleFunction []) (Value 0 (referenceType binaryFn_t))
     [Value 2 (valueType Bool_t), Value 1 (valueType Int_t)] (valueType Int_t)) \<and>
   rejected (visitApplyInst (exampleFunction []) (Value 0 (referenceType binaryFn_t))
     [Value 1 (valueType Int_t)] (valueType Int_t))"
proof -
  let ?F = "exampleFunction []"
  let ?callee = "Value 0 (referenceType binaryFn_t)"
  let ?ti = "\<lparr>getInputTypes = [valueType Int_t, valueType Bool_t],
            getResultType = valueType Int_t\<rparr>"
  let ?args = "[Value 1 (valueType Int_t), Value 2 (valueType Bool_t)]"
  have h1: "\<not> isAddress (getType ?callee)"
    by (simp add: example_defs)
  have h2: "SILType_is_FunctionType (getType ?callee)"
    by (simp add: example_defs SILType_is_FunctionType_def)
  have h3: "getFunctionTypeInfo (getModule ?F) (getType ?callee) = Some ?ti"
    by (simp add: example_defs)
  note rule = apply_arity_positional_types [OF h1 h2 h3]
  have acc: "accepted (visitApplyInst ?F ?callee ?args (valueType Int_t))"
    using rule [of ?args "valueType Int_t"] by (simp add: less_Suc_eq)
  have "getType (?args ! 0) \<noteq> getType (?args ! 1)"
    by (simp add: example_defs)
  with acc rule [of ?args "valueType Int_t"]
  have "rejected (visitApplyInst ?F ?callee (?args[0 := ?args ! 1, 1 := ?args ! 0])
      (valueType Int_t))"
    by (metis One_nat_def length_Cons lessI less_Suc_eq list.size(3) zero_less_Suc)
  then have swapped: "rejected (visitApplyInst ?F ?callee
      [Value 2 (valueType Bool_t), Value 1 (valueType Int_t)] (valueType Int_t))"
    by simp
  have short: "rejected (visitApplyInst ?F ?callee [Value 1 (valueType Int_t)] (valueType Int_t))"
    using rule [of "[Value 1 (valueType Int_t)]" "valueType Int_t"] by auto
  from h1 h2 h3 acc swapped short show ?thesis by blast
qed




subsection \<open>Archetype method lookup\<close>

text \<open>
  Claim C7, as stated, at an operand that is the address of \<open>Int\<close>, with a result type
  that passes the three checks on the method type: the operand is neither an address of
  an archetype nor a metatype, and the rule ends with a failed assertion, not with the
  fatal error.
\<close>

theorem archetype_method_counterexample:
  "\<not> (isAddress (getType (Value 0 (addressOf (valueType Int_t)))) \<and>
      SILType_is_ArchetypeType (getType (Value 0 (addressOf (valueType Int_t))))) \<and>
   \<not> SILType_is_MetaTypeType (getType (Value 0 (addressOf (valueType Int_t)))) \<and>
   visitArchetypeMethodInst (Value 0 (addressOf (valueType Int_t)))
       (referenceType (FunctionType Int_t (FunctionType Bool_t Int_t))) =
     Inl (AssertionFailed ''archetype_method must apply to an archetype address'') \<and>
   \<not> fatal (visitArchetypeMethodInst (Value 0 (addressOf (valueType Int_t)))
       (referenceType (FunctionType Int_t (FunctionType Bool_t Int_t))))"
  by (simp add: visitArchetypeMethodInst_def example_defs SILType_is_ArchetypeType_def
      SILType_is_MetaTypeType_def assert_def)

lemmas archetype_method_defs = visitArchetypeMethodInst_def SILType_is_FunctionType_def
  SILType_is_ArchetypeType_def SILType_is_MetaTypeType_def llvm_unreachable_def Let_def
  assert_def

text \<open>
  Claim C7, amended. The archetype_method rule accepts exactly when the result type is a
  concrete function type whose input type equals the operand's underlying type and whose
  result is a function type, and the operand is an address of archetype shape or else
  (not being an address) a metatype whose instance type is an archetype. The fatal error
  arises exactly when the three checks on the method type pass and the operand is
  neither an address nor a metatype; it is then the \<^verbatim>\<open>llvm_unreachable\<close> of the rule. In
  every other case in which the rule does not accept, an assertion fails: in particular
  for an address that is not of archetype shape and for a metatype whose instance type is
  not an archetype.
\<close>

theorem archetype_method_rule:
  "(accepted (visitArchetypeMethodInst operand ty) \<longleftrightarrow>
      SILType_is_FunctionType ty \<and>
      getInput (getSwiftType ty) = getSwiftType (getType operand) \<and>
      isFunctionType (getResult (getSwiftType ty)) \<and>
      (if isAddress (getType operand) then SILType_is_ArchetypeType (getType operand)
       else SILType_is_MetaTypeType (getType operand) \<and>
            isArchetypeType (getInstanceType (getSwiftType (getType operand))))) \<and>
   (fatal (visitArchetypeMethodInst operand ty) \<longleftrightarrow>
      SILType_is_FunctionType ty \<and>
      getInput (getSwiftType ty) = getSwiftType (getType operand) \<and>
      isFunctionType (getResult (getSwiftType ty)) \<and>
      \<not> isAddress (getType operand) \<and> \<not> SILType_is_MetaTypeType (getType operand)) \<and>
   (fatal (visitArchetypeMethodInst operand ty) \<longrightarrow>
      visitArchetypeMethodInst operand ty =
        Inl (Unreachable ''method must apply to an address or metatype'')) \<and>
   (accepted (visitArchetypeMethodInst operand ty) \<or>
    rejected (visitArchetypeMethodInst operand ty) \<or>
    fatal (visitArchetypeMethodInst operand ty))"
proof (cases "getSwiftType ty")
  case (FunctionType input res)
  then show ?thesis
    by (cases "getSwiftType (getType operand)") (auto simp: archetype_method_defs)
qed (auto simp: visitArchetypeMethodInst_def SILType_is_FunctionType_def)

theorem archetype_method_rule_witness:
  "visitArchetypeMethodInst (Value 0 (valueType Int_t))
       (referenceType (FunctionType Int_t (FunctionType Bool_t Int_t))) =
     Inl (Unreachable ''method must apply to an address or metatype'') \<and>
   accepted (visitArchetypeMethodInst (Value 0 (addressOf (addressOnlyType (ArchetypeType ''T''))))
       (referenceType (FunctionType (ArchetypeType ''T'') (FunctionType Bool_t Int_t)))) \<and>
   accepted (visitArchetypeMethodInst (Value 0 (valueType (MetaTypeType (ArchetypeType ''T''))))
       (referenceType (FunctionType (MetaTypeType (ArchetypeType ''T''))
          (FunctionType Bool_t Int_t)))) \<and>
   rejected (visitArchetypeMethodInst (Value 0 (valueType (MetaTypeType Int_t)))
       (referenceType (FunctionType (MetaTypeType Int_t) (FunctionType Bool_t Int_t))))"
proof -
  have "fatal (visitArchetypeMethodInst (Value 0 (valueType Int_t))
       (referenceType (FunctionType Int_t (FunctionType Bool_t Int_t))))"
    using archetype_method_rule [of "Value 0 (valueType Int_t)"
        "referenceType (FunctionType Int_t (FunctionType Bool_t Int_t))"]
    by (simp add: example_defs SILType_is_FunctionType_def SILType_is_MetaTypeType_def)
  then have a: "visitArchetypeMethodInst (Value 0 (valueType Int_t))
       (referenceType (FunctionType Int_t (FunctionType Bool_t Int_t))) =
     Inl (Unreachable ''method must apply to an address or metatype'')"
    using archetype_method_rule [of "Value 0 (valueType Int_t)"
        "referenceType (FunctionType Int_t (FunctionType Bool_t Int_t))"]
    by blast
  have b: "accepted (visitArchetypeMethodInst
       (Value 0 (addressOf (addressOnlyType (ArchetypeType ''T''))))
       (referenceType (FunctionType (ArchetypeType ''T'') (FunctionType Bool_t Int_t))))"
    using archetype_method_rule [of "Value 0 (addressOf (addressOnlyType (ArchetypeType ''T'')))"
        "referenceType (FunctionType (ArchetypeType ''T'') (FunctionType Bool_t Int_t))"]
    by (simp add: example_defs SILType_is_FunctionType_def SILType_is_ArchetypeType_def)
  have c: "accepted (visitArchetypeMethodInst
       (Value 0 (valueType (MetaTypeType (ArchetypeType ''T''))))
       (referenceType (FunctionType (MetaTypeType (ArchetypeType ''T''))
          (FunctionType Bool_t Int_t))))"
    using archetype_method_rule [of "Value 0 (valueType (MetaTypeType (ArchetypeType ''T'')))"
        "referenceType (FunctionType (MetaTypeType (ArchetypeType ''T''))
          (FunctionType Bool_t Int_t))"]
    by (simp add: example_defs SILType_is_FunctionType_def SILType_is_MetaTypeType_def)
  have "\<not> accepted (visitArchetypeMethodInst (Value 0 (valueType (MetaTypeType Int_t)))
         (referenceType (FunctionType (MetaTypeType Int_t) (FunctionType Bool_t Int_t)))) \<and>
       \<not> fatal (visitArchetypeMethodInst (Value 0 (valueType (MetaTypeType Int_t)))
         (referenceType (FunctionType (MetaTypeType Int_t) (FunctionType Bool_t Int_t))))"
    using archetype_method_rule [of "Value 0 (valueType (MetaTypeType Int_t))"
        "referenceType (FunctionType (MetaTypeType Int_t) (FunctionType Bool_t Int_t))"]
    by (simp add: example_defs SILType_is_FunctionType_def SILType_is_MetaTypeType_def)
  then have d: "rejected (visitArchetypeMethodInst (Value 0 (valueType (MetaTypeType Int_t)))
       (referenceType (FunctionType (MetaTypeType Int_t) (FunctionType Bool_t Int_t))))"
    using archetype_method_rule [of "Value 0 (valueType (MetaTypeType Int_t))"
        "referenceType (FunctionType (MetaTypeType Int_t) (FunctionType Bool_t Int_t))"]
    by blast
  from a b c d show ?thesis by blast
qed

subsection \<open>The position of terminators\<close>

text \<open>
  Claim C2, as stated, at the empty block: the walk visits no instruction, so the block
  and a function made of it pass verification, and the block does not end in a
  terminator.
\<close>

theorem empty_block_passes:
  "visitBasicBlock (exampleFunction [[]]) [] = Inr () \<and>
   verify (exampleFunction [[]]) = Inr () \<and>
   \<not> (([]::BasicBlock) \<noteq> [] \<and> isa_TermInst (last ([]::BasicBlock)))"
  by (simp add: verify_def visitFunction_def visitBasicBlock_def exampleFunction_def)

text \<open>
  Claim C2, amended. For the instruction at position \<open>i\<close> of a block, \<^verbatim>\<open>visit\<close> checks
  the position before it dispatches to the rule of the instruction's kind: a
  non-terminator in last position and a terminator not in last position each fail the
  assertion on the position, whatever the rule of the kind would say, and otherwise the
  outcome is the outcome of that rule. Hence every non-empty block that passes
  verification ends in a terminator and has no terminator earlier in its sequence.
\<close>

theorem terminator_position:
  "(i < length BB \<longrightarrow>
      (\<not> isa_TermInst (BB ! i) \<and> i = length BB - 1 \<longrightarrow>
         visit F BB i =
           Inl (AssertionFailed ''Non-terminators cannot be the last in a block'')) \<and>
      (isa_TermInst (BB ! i) \<and> i \<noteq> length BB - 1 \<longrightarrow>
         visit F BB i = Inl (AssertionFailed ''Terminator must be the last in block'')) \<and>
      (isa_TermInst (BB ! i) = (i = length BB - 1) \<longrightarrow>
         visit F BB i = SILVisitor_visit F (BB ! i))) \<and>
   (BB \<noteq> [] \<and> visitBasicBlock F BB = Inr () \<longrightarrow>
      isa_TermInst (last BB) \<and> (\<forall>k < length BB - 1. \<not> isa_TermInst (BB ! k)))"
proof -
  have block: "isa_TermInst (last BB) \<and> (\<forall>k < length BB - 1. \<not> isa_TermInst (BB ! k))"
    if ne: "BB \<noteq> []" and pass: "visitBasicBlock F BB = Inr ()"
  proof -
    have all: "visit F BB k = Inr ()" if "k < length BB" for k
      using pass that by (simp add: visitBasicBlock_accepted)
    have pos: "isa_TermInst (BB ! k) \<longleftrightarrow> k = length BB - 1" if k: "k < length BB" for k
      using all [OF k] visit_position [OF k, of F] by (auto split: if_splits)
    from ne have "length BB - 1 < length BB" by simp
    with pos have "isa_TermInst (BB ! (length BB - 1))" by blast
    with ne have "isa_TermInst (last BB)" by (simp add: last_conv_nth)
    moreover have "\<forall>k < length BB - 1. \<not> isa_TermInst (BB ! k)"
      using pos by auto
    ultimately show ?thesis by blast
  qed
  show ?thesis
    using block by (auto simp: visit_position)
qed

text \<open>
  An instance: the entry block passes and ends in its return; in the block
  \<open>[return, alloc_var]\<close> the return fails the assertion on terminators and the
  alloc_var the assertion on non-terminators, although both pass the rule of their kind.
\<close>

theorem terminator_position_witness:
  "entryBlock \<noteq> [] \<and>
   visitBasicBlock (exampleFunction [entryBlock]) entryBlock = Inr () \<and>
   isa_TermInst (last entryBlock) \<and>
   visit (exampleFunction [])
       [ReturnInst (Some (Value 0 (valueType Int_t))), AllocVarInst (addressOf (valueType Int_t))]
       0 = Inl (AssertionFailed ''Terminator must be the last in block'') \<and>
   visit (exampleFunction [])
       [ReturnInst (Some (Value 0 (valueType Int_t))), AllocVarInst (addressOf (valueType Int_t))]
       1 = Inl (AssertionFailed ''Non-terminators cannot be the last in a block'') \<and>
   SILVisitor_visit (exampleFunction []) (ReturnInst (Some (Value 0 (valueType Int_t)))) = Inr () \<and>
   SILVisitor_visit (exampleFunction []) (AllocVarInst (addressOf (valueType Int_t))) = Inr ()"
proof -
  let ?F = "exampleFunction [entryBlock]"
  let ?BB = "[ReturnInst (Some (Value 0 (valueType Int_t))),
      AllocVarInst (addressOf (valueType Int_t))]"
  have ne: "entryBlock \<noteq> []"
    by (simp add: entryBlock_def)
  have pass: "visitBasicBlock ?F entryBlock = Inr ()"
    using entryBlock_verifies
    by (simp add: verify_def visitFunction_def exampleFunction_def)
  have ends: "isa_TermInst (last entryBlock)"
    using ne pass terminator_position [of 0 entryBlock ?F] by blast
  have first: "visit (exampleFunction []) ?BB 0 =
      Inl (AssertionFailed ''Terminator must be the last in block'')"
    using terminator_position [of 0 ?BB "exampleFunction []"] by simp
  have second: "visit (exampleFunction []) ?BB 1 =
      Inl (AssertionFailed ''Non-terminators cannot be the last in a block'')"
    using terminator_position [of 1 ?BB "exampleFunction []"] by simp
  have rules: "SILVisitor_visit (exampleFunction [])
        (ReturnInst (Some (Value 0 (valueType Int_t)))) = Inr () \<and>
      SILVisitor_visit (exampleFunction []) (AllocVarInst (addressOf (valueType Int_t))) = Inr ()"
    by (simp add: visitReturnInst_def visitAllocVarInst_def addressOf_def valueType_def
        assert_def)
  from ne pass ends first second rules show ?thesis by blast
qed

end
